theory Spec2Isabelle
  imports Complex_Main "HOL-Library.Sublist"
begin

section \<open>Python strings\<close>

text \<open>
  A Python \<open>str\<close> is a sequence of Unicode code points; \<open>pystr\<close> is the list of
  their numbers (what \<open>ord\<close> returns), so that the bullet U+2022 is one element as it
  is in Python.  \<open>str\<close> reads an ASCII literal.
\<close>

type_synonym pystr = "int list"

definition str :: "string \<Rightarrow> pystr" where
  "str s = map of_char s"

text \<open>\<open>c.isspace()\<close>: the code points Python's \<open>str.strip()\<close> removes.\<close>

definition isspace :: "int \<Rightarrow> bool" where
  "isspace c = (c \<in> set [9, 10, 11, 12, 13, 28, 29, 30, 31, 32, 133, 160, 5760,
     8192, 8193, 8194, 8195, 8196, 8197, 8198, 8199, 8200, 8201, 8202,
     8232, 8233, 8239, 8287, 12288])"

definition strip :: "pystr \<Rightarrow> pystr" where
  "strip s = rev (dropWhile isspace (rev (dropWhile isspace s)))"

definition startswith :: "pystr \<Rightarrow> pystr \<Rightarrow> bool" where
  "startswith s p = prefix p s"

definition endswith :: "pystr \<Rightarrow> pystr \<Rightarrow> bool" where
  "endswith s p = suffix p s"

text \<open>
  \<open>s.replace(old, new)\<close>: every occurrence of \<open>old\<close>, left to right and without
  overlap.  The source only replaces non-empty constants; for an empty \<open>old\<close> (where
  Python inserts \<open>new\<close> between all characters) the function returns \<open>s\<close>.
\<close>

function replace :: "pystr \<Rightarrow> pystr \<Rightarrow> pystr \<Rightarrow> pystr" where
  "replace s old new =
     (if s = [] \<or> old = [] then s
      else if prefix old s then new @ replace (drop (length old) s) old new
      else hd s # replace (tl s) old new)"
  by pat_completeness auto
termination
  by (relation "measure (\<lambda>(s, old, new). length s)") auto

declare replace.simps [simp del]

text \<open>\<open>s.split(sep)\<close> for a separator of one character (\<open>'\n'\<close> and \<open>','\<close> here).\<close>

fun split :: "pystr \<Rightarrow> int \<Rightarrow> pystr list" where
  "split [] sep = [[]]"
| "split (c # cs) sep =
     (if c = sep then [] # split cs sep
      else (case split cs sep of [] \<Rightarrow> [[c]] | w # ws \<Rightarrow> (c # w) # ws))"

text \<open>\<open>sep.join(xs)\<close>.\<close>

fun join :: "pystr \<Rightarrow> pystr list \<Rightarrow> pystr" where
  "join sep [] = []"
| "join sep [x] = x"
| "join sep (x # y # ys) = x @ sep @ join sep (y # ys)"

text \<open>
  \<open>s.lower()\<close>.  The letters A to Z are mapped as Python maps them; the code points
  outside ASCII, which Python maps by the Unicode tables, are left as they are.  Of those,
  only U+0130 and U+212A have a lower case with an ASCII letter in it (i and k); neither
  letter occurs in the texts that the code compares a lower-cased string with.
\<close>

definition lower :: "pystr \<Rightarrow> pystr" where
  "lower s = map (\<lambda>c. if 65 \<le> c \<and> c \<le> 90 then c + 32 else c) s"

text \<open>\<open>sub in s\<close>: the search for a substring.\<close>

fun contains :: "pystr \<Rightarrow> pystr \<Rightarrow> bool" where
  "contains [] sub = (sub = [])"
| "contains (c # cs) sub = (prefix sub (c # cs) \<or> contains cs sub)"

section \<open>Retry with backoff\<close>

text \<open>
  The exceptions the modelled code raises or meets.  \<open>HttpError st\<close> is
  googleapiclient's error with \<open>e.resp.status = st\<close>; \<open>APIStatusError st\<close> is the
  Anthropic client's error for a response of status \<open>st\<close>; \<open>OtherException\<close> is any
  other subclass of \<open>Exception\<close> (a connection failure, say), with its message.
  \<open>ValueError\<close> is what \<open>time.sleep\<close> raises on a negative delay,
  \<open>OverflowError\<close> what it raises on a delay beyond the platform's range and what
  \<open>**\<close> raises when the power is out of the range of the floats, \<open>TypeError\<close>
  what \<open>raise None\<close> raises, \<open>IndexError\<close> what \<open>content[0]\<close> raises on an empty
  list.
\<close>

datatype exn =
    HttpError int
  | APIStatusError int
  | OtherException pystr
  | ValueError
  | OverflowError
  | TypeError
  | IndexError

text \<open>
  Python's floats.  Their values and their arithmetic, with its rounding, its special
  values and its errors, are the interpreter's and not this repository's: \<open>'f\<close> is the
  type of the float values, and the three operations that the wrappers apply to them are
  parameters.  \<open>float_pow x n\<close> is \<open>x ** n\<close> for an \<open>int\<close> \<open>n\<close> that is not
  negative, which raises OverflowError when the result is out of range; \<open>float_mul\<close>
  is \<open>*\<close>, which does not raise; \<open>time_sleep d\<close> is the exception that
  \<open>time.sleep(d)\<close> raises (ValueError, OverflowError), or \<open>None\<close> when it sleeps.
\<close>

record 'f python_floats =
  float_pow :: "'f \<Rightarrow> nat \<Rightarrow> exn + 'f"
  float_mul :: "'f \<Rightarrow> 'f \<Rightarrow> 'f"
  time_sleep :: "'f \<Rightarrow> exn option"

text \<open>
  config.py reads the three retry settings from the environment (defaults 3, 1.0 and
  2.0): an \<open>int\<close> and two floats.
\<close>

record 'f config =
  MAX_RETRIES :: int
  RETRY_DELAY :: 'f
  RETRY_BACKOFF :: 'f

text \<open>
  The floats of the examples below are whole numbers from 0 to 4.  On these \<open>**\<close> and
  \<open>*\<close> are exact and do not overflow, and \<open>time.sleep\<close> sleeps; \<open>small_floats\<close>
  gives the three operations there, the floats being written as integers.
\<close>

definition small_floats :: "int python_floats" where
  "small_floats =
     \<lparr>float_pow = (\<lambda>x n. Inr (x ^ n)),
      float_mul = (\<lambda>x y. x * y),
      time_sleep = (\<lambda>d. if d < 0 then Some ValueError else None)\<rparr>"

definition default_config :: "int config" where
  "default_config = \<lparr>MAX_RETRIES = 3, RETRY_DELAY = 1, RETRY_BACKOFF = 2\<rparr>"

text \<open>
  The wrapped function runs against a world \<open>'w\<close> (the remote service, a counter of a
  test double) and either raises or returns.  The wrapper's own effects are recorded next
  to the world: how often it invoked the function, and the delays it slept, in order.
\<close>

type_synonym ('w, 'a) operation = "'w \<Rightarrow> (exn + 'a) \<times> 'w"

record ('w, 'f) io =
  world :: 'w
  calls :: nat
  sleeps :: "'f list"

definition invoke ::
  "('w, 'a) operation \<Rightarrow> ('w, 'f) io \<Rightarrow> (exn + 'a) \<times> ('w, 'f) io" where
  "invoke f s = (case f (world s) of (r, w) \<Rightarrow> (r, s\<lparr>world := w, calls := Suc (calls s)\<rparr>))"

text \<open>
  \<open>delay = RETRY_DELAY * (RETRY_BACKOFF ** attempt)\<close>, in floats: the power may
  raise.
\<close>

definition delay :: "'f python_floats \<Rightarrow> 'f config \<Rightarrow> nat \<Rightarrow> exn + 'f" where
  "delay rt cfg attempt =
     (case float_pow rt (RETRY_BACKOFF cfg) attempt of
        Inl err \<Rightarrow> Inl err
      | Inr p \<Rightarrow> Inr (float_mul rt (RETRY_DELAY cfg) p))"

text \<open>\<open>time.sleep(d)\<close>: it raises, or the delay is slept.\<close>

definition sleep :: "'f python_floats \<Rightarrow> 'f \<Rightarrow> ('w, 'f) io \<Rightarrow> exn + ('w, 'f) io" where
  "sleep rt d s =
     (case time_sleep rt d of
        Some err \<Rightarrow> Inl err
      | None \<Rightarrow> Inr (s\<lparr>sleeps := sleeps s @ [d]\<rparr>))"

text \<open>
  The lines of the handler that compute the delay, log it and sleep; both wrappers have
  them.  An exception raised here is raised inside the handler and so leaves the wrapper.
\<close>

definition backoff ::
  "'f python_floats \<Rightarrow> 'f config \<Rightarrow> nat \<Rightarrow> ('w, 'f) io \<Rightarrow> exn + ('w, 'f) io" where
  "backoff rt cfg attempt s =
     (case delay rt cfg attempt of
        Inl err \<Rightarrow> Inl err
      | Inr d \<Rightarrow> sleep rt d s)"

text \<open>
  \<open>claude_api._retry_with_backoff\<close>.  The loop \<open>for attempt in range(MAX_RETRIES)\<close>
  is the recursion on the number of iterations left; \<open>attempt\<close> is the loop variable and
  \<open>last_exception\<close> keeps its name.  After the loop, \<open>raise last_exception\<close>.
\<close>

fun claude_attempts ::
  "'f python_floats \<Rightarrow> 'f config \<Rightarrow> ('w, 'a) operation \<Rightarrow> nat \<Rightarrow> nat \<Rightarrow> exn option
     \<Rightarrow> ('w, 'f) io \<Rightarrow> (exn + 'a) \<times> ('w, 'f) io" where
  "claude_attempts rt cfg f 0 attempt last_exception s =
     (case last_exception of None \<Rightarrow> (Inl TypeError, s) | Some e \<Rightarrow> (Inl e, s))"
| "claude_attempts rt cfg f (Suc k) attempt last_exception s =
     (case invoke f s of
        (Inr v, s1) \<Rightarrow> (Inr v, s1)
      | (Inl e, s1) \<Rightarrow>
          if int attempt < MAX_RETRIES cfg - 1 then
            (case backoff rt cfg attempt s1 of
               Inl err \<Rightarrow> (Inl err, s1)
             | Inr s2 \<Rightarrow> claude_attempts rt cfg f k (Suc attempt) (Some e) s2)
          else claude_attempts rt cfg f k (Suc attempt) (Some e) s1)"

definition claude_retry_with_backoff ::
  "'f python_floats \<Rightarrow> 'f config \<Rightarrow> ('w, 'a) operation \<Rightarrow> ('w, 'f) io
     \<Rightarrow> (exn + 'a) \<times> ('w, 'f) io" where
  "claude_retry_with_backoff rt cfg f s =
     claude_attempts rt cfg f (nat (MAX_RETRIES cfg)) 0 None s"

text \<open>
  \<open>google_docs._retry_with_backoff\<close>: an HttpError is retried only when its status is
  one of 429, 500, 502, 503, 504, and otherwise ends the loop (\<open>break\<close>); every other
  exception is retried.
\<close>

definition retryable_status :: "int \<Rightarrow> bool" where
  "retryable_status st = (st \<in> set [429, 500, 502, 503, 504])"

fun google_attempts ::
  "'f python_floats \<Rightarrow> 'f config \<Rightarrow> ('w, 'a) operation \<Rightarrow> nat \<Rightarrow> nat \<Rightarrow> exn option
     \<Rightarrow> ('w, 'f) io \<Rightarrow> (exn + 'a) \<times> ('w, 'f) io" where
  "google_attempts rt cfg f 0 attempt last_exception s =
     (case last_exception of None \<Rightarrow> (Inl TypeError, s) | Some e \<Rightarrow> (Inl e, s))"
| "google_attempts rt cfg f (Suc k) attempt last_exception s =
     (case invoke f s of
        (Inr v, s1) \<Rightarrow> (Inr v, s1)
      | (Inl e, s1) \<Rightarrow>
          (case e of
             HttpError st \<Rightarrow>
               if retryable_status st then
                 (if int attempt < MAX_RETRIES cfg - 1 then
                    (case backoff rt cfg attempt s1 of
                       Inl err \<Rightarrow> (Inl err, s1)
                     | Inr s2 \<Rightarrow> google_attempts rt cfg f k (Suc attempt) (Some e) s2)
                  else google_attempts rt cfg f k (Suc attempt) (Some e) s1)
               else (Inl e, s1)
           | _ \<Rightarrow>
               if int attempt < MAX_RETRIES cfg - 1 then
                 (case backoff rt cfg attempt s1 of
                    Inl err \<Rightarrow> (Inl err, s1)
                  | Inr s2 \<Rightarrow> google_attempts rt cfg f k (Suc attempt) (Some e) s2)
               else google_attempts rt cfg f k (Suc attempt) (Some e) s1))"

definition google_retry_with_backoff ::
  "'f python_floats \<Rightarrow> 'f config \<Rightarrow> ('w, 'a) operation \<Rightarrow> ('w, 'f) io
     \<Rightarrow> (exn + 'a) \<times> ('w, 'f) io" where
  "google_retry_with_backoff rt cfg f s =
     google_attempts rt cfg f (nat (MAX_RETRIES cfg)) 0 None s"

text \<open>The world after \<open>n\<close> invocations of \<open>f\<close>, each of which may change it.\<close>

primrec after :: "('w, 'a) operation \<Rightarrow> nat \<Rightarrow> 'w \<Rightarrow> 'w" where
  "after f 0 w = w"
| "after f (Suc n) w = after f n (snd (f w))"





definition fresh :: "(nat, int) io" where
  "fresh = \<lparr>world = 0, calls = 0, sleeps = []\<rparr>"

section \<open>The extractor (claude\_api.py)\<close>

text \<open>
  What \<open>json.loads\<close> returns.  \<open>json.loads\<close> itself belongs to Python's library, not
  to this repository: the functions below take it as the parameter \<open>loads\<close>, where
  \<open>None\<close> stands for raising \<open>JSONDecodeError\<close>.
\<close>

datatype json =
    JNull
  | JBool bool
  | JInt int
  | JFloat real
  | JStr pystr
  | JArr "json list"
  | JObj "(pystr \<times> json) list"

text \<open>\<open>key in d\<close> for the value \<open>d\<close> that \<open>json.loads\<close> returned.\<close>

fun has_key :: "json \<Rightarrow> pystr \<Rightarrow> bool" where
  "has_key (JObj kvs) k = (k \<in> fst ` set kvs)"
| "has_key _ k = False"

text \<open>Three backquotes, the fence of a Markdown code block.\<close>

definition fence :: pystr where
  "fence = [96, 96, 96]"

definition clean_json_response :: "pystr \<Rightarrow> pystr" where
  "clean_json_response response_text =
     (let text = strip response_text;
          text = (if startswith text (fence @ str ''json'') then drop 7 text
                  else if startswith text fence then drop 3 text
                  else text);
          text = (if endswith text fence then take (length text - 3) text else text)
      in strip text)"

text \<open>
  One daily record as a Python dict whose values have the types of the DailyRecord:
  \<open>None\<close> is an absent key, so that \<open>d.get(key, default)\<close> is \<open>get_or\<close>.
\<close>

record summary =
  date :: "pystr option"
  workout :: "pystr option"
  eating_feelings :: "pystr option"
  short_term_goals :: "pystr list option"

definition get_or :: "'a option \<Rightarrow> 'a \<Rightarrow> 'a" where
  "get_or v d = (case v of None \<Rightarrow> d | Some x \<Rightarrow> x)"

text \<open>
  The prompt sent to the model is a fixed instruction text around the values it embeds
  (for the week, the workout, the eating feelings and the joined goals of each record, read
  with \<open>.get\<close>); only those values are kept.  \<open>client.messages.create\<close> is the
  text-generation service: it raises, or returns the texts of the blocks of
  \<open>response.content\<close>.
\<close>

datatype prompt =
    DailyPrompt pystr pystr
  | WeeklyPrompt "summary list"

type_synonym 'w messages_create = "prompt \<Rightarrow> ('w, pystr list) operation"

definition daily_fallback :: json where
  "daily_fallback = JObj
     [(str ''workout'', JStr (str ''Unable to process workout information'')),
      (str ''eating_feelings'', JStr (str ''Unable to process eating information'')),
      (str ''short_term_goals'', JArr [])]"

text \<open>
  The inner \<open>_make_request\<close> of \<open>get_daily_summary\<close>.  \<open>response.content[0]\<close>
  raises IndexError on an empty list; a JSONDecodeError is caught and answered with the
  fallback.
\<close>

definition daily_make_request ::
  "(pystr \<Rightarrow> json option) \<Rightarrow> 'w messages_create \<Rightarrow> prompt \<Rightarrow> ('w, json) operation" where
  "daily_make_request loads create p w =
     (case create p w of
        (Inl e, w1) \<Rightarrow> (Inl e, w1)
      | (Inr content, w1) \<Rightarrow>
          (case content of
             [] \<Rightarrow> (Inl IndexError, w1)
           | block # _ \<Rightarrow>
               (let response_text = strip block;
                    cleaned_text = clean_json_response response_text
                in case loads cleaned_text of
                     Some v \<Rightarrow> (Inr v, w1)
                   | None \<Rightarrow> (Inr daily_fallback, w1))))"

definition get_daily_summary ::
  "'f python_floats \<Rightarrow> 'f config \<Rightarrow> (pystr \<Rightarrow> json option) \<Rightarrow> 'w messages_create \<Rightarrow> pystr \<Rightarrow> pystr \<Rightarrow> ('w, 'f) io
     \<Rightarrow> (exn + json) \<times> ('w, 'f) io" where
  "get_daily_summary rt cfg loads create history user_reply s =
     (case claude_retry_with_backoff rt cfg
             (daily_make_request loads create (DailyPrompt history user_reply)) s of
        (Inr result, s1) \<Rightarrow> (Inr result, s1)
      | (Inl e, s1) \<Rightarrow> (Inr daily_fallback, s1))"




text \<open>
  Test doubles.  \<open>loads_examples\<close> is \<open>json.loads\<close> on the texts the examples
  below use: the empty object parses, and \<open>Invalid JSON response\<close> does not.
  \<open>test_week\<close> is the list of test\_weekly\_recap\_workout\_counting.
\<close>

definition loads_examples :: "pystr \<Rightarrow> json option" where
  "loads_examples = map_of [(str ''{}'', JObj [])]"

definition replies_with :: "pystr \<Rightarrow> nat messages_create" where
  "replies_with text p n = (Inr [text], Suc n)"



section \<open>The document log (google\_docs.py, bot.py)\<close>

text \<open>
  The body of a fetched document, as far as the code reads it: a structural element is
  \<open>element['paragraph']['elements']\<close> when both keys are there, and a paragraph
  element is \<open>elem['textRun']['content']\<close> when both keys are there.
\<close>

type_synonym paragraph_element = "pystr option"
type_synonym structural_element = "paragraph_element list option"

definition full_text :: "structural_element list \<Rightarrow> pystr" where
  "full_text content =
     concat (map (\<lambda>element. case element of
                     None \<Rightarrow> []
                   | Some elems \<Rightarrow> concat (map (\<lambda>elem. get_or elem []) elems)) content)"

text \<open>
  The bullet as each file spells it.  bot.py writes U+2022.  google\_docs.py tests for the
  three characters U+00E2 U+20AC U+00A2, which is what the bytes of U+2022 in UTF-8 look
  like when they are read as Windows-1252.
\<close>

definition written_bullet :: pystr where
  "written_bullet = [8226]"

definition parsed_bullet :: pystr where
  "parsed_bullet = [226, 8364, 162]"

text \<open>
  The body of the inner loop of \<open>get_daily_summaries_from_doc\<close>, on the stripped line.
\<close>

definition parse_line_content :: "pystr \<Rightarrow> summary \<Rightarrow> summary" where
  "parse_line_content line_content summary_data =
     (if startswith line_content (parsed_bullet @ str '' Workout:'') then
        summary_data\<lparr>workout :=
          Some (strip (replace line_content (parsed_bullet @ str '' Workout:'') []))\<rparr>
      else if startswith line_content (parsed_bullet @ str '' Eating Feelings:'') then
        summary_data\<lparr>eating_feelings :=
          Some (strip (replace line_content (parsed_bullet @ str '' Eating Feelings:'') []))\<rparr>
      else if startswith line_content (parsed_bullet @ str '' Short-term Goals:'') then
        (let goals_text =
           strip (replace line_content (parsed_bullet @ str '' Short-term Goals:'') [])
         in if goals_text \<noteq> [] \<and> goals_text \<noteq> str ''Not specified'' then
              summary_data\<lparr>short_term_goals :=
                Some (map strip (filter (\<lambda>goal. strip goal \<noteq> []) (split goals_text 44)))\<rparr>
            else summary_data)
      else summary_data)"

text \<open>
  The inner loop \<open>while j < len(lines) and not lines[j].strip().startswith('---')\<close>,
  on the lines from \<open>j\<close> on: it returns the record and the lines left, the first of
  which is the separator.
\<close>

fun scan_entry :: "pystr list \<Rightarrow> summary \<Rightarrow> summary \<times> pystr list" where
  "scan_entry [] summary_data = (summary_data, [])"
| "scan_entry (l # ls) summary_data =
     (if startswith (strip l) (str ''---'') then (summary_data, l # ls)
      else scan_entry ls (parse_line_content (strip l) summary_data))"

lemma scan_entry_length: "length (snd (scan_entry ls sd)) \<le> length ls"
  by (induction ls arbitrary: sd) (auto intro: le_SucI)

definition new_summary_data :: "pystr \<Rightarrow> summary" where
  "new_summary_data date_str =
     \<lparr>date = Some date_str, workout = Some (str ''Not specified''),
      eating_feelings = Some (str ''Not specified''), short_term_goals = Some []\<rparr>"

text \<open>
  The outer loop \<open>while i < len(lines) and len(summaries) < days\<close>, on the lines from
  \<open>i\<close> on.  After an entry, \<open>i = j\<close>: the loop goes on at the separator.
\<close>

function parse_lines :: "int \<Rightarrow> pystr list \<Rightarrow> summary list \<Rightarrow> summary list" where
  "parse_lines days [] summaries = summaries"
| "parse_lines days (l # ls) summaries =
     (if int (length summaries) < days then
        (if startswith (strip l) (str ''Daily Check-in:'') then
           parse_lines days
             (snd (scan_entry ls
                (new_summary_data (strip (replace (strip l) (str ''Daily Check-in:'') [])))))
             (summaries @
              [fst (scan_entry ls
                 (new_summary_data (strip (replace (strip l) (str ''Daily Check-in:'') []))))])
         else parse_lines days ls summaries)
      else summaries)"
  by pat_completeness auto
termination
  by (relation "measure (\<lambda>(days, ls, summaries). length ls)")
     (auto simp: scan_entry_length le_imp_less_Suc)

declare parse_lines.simps [simp del]

definition parse_document :: "structural_element list \<Rightarrow> int \<Rightarrow> summary list" where
  "parse_document content days = parse_lines days (split (full_text content) 10) []"

text \<open>
  \<open>get_daily_summaries_from_doc\<close>.  \<open>get\<close> is the request of
  \<open>get_document_content\<close> followed by \<open>.get('body', {}).get('content', [])\<close>;
  \<open>get_document_content\<close> runs it under the retry wrapper and raises what that
  raises, and any exception is answered with the empty list.
\<close>

definition get_daily_summaries_from_doc ::
  "'f python_floats \<Rightarrow> 'f config \<Rightarrow> ('w, structural_element list) operation \<Rightarrow> int \<Rightarrow> ('w, 'f) io
     \<Rightarrow> summary list \<times> ('w, 'f) io" where
  "get_daily_summaries_from_doc rt cfg get days s =
     (case google_retry_with_backoff rt cfg get s of
        (Inl e, s1) \<Rightarrow> ([], s1)
      | (Inr content, s1) \<Rightarrow> (parse_document content days, s1))"

text \<open>
  The entry that \<open>process_daily_response\<close> writes: the f-string \<open>doc_content\<close>,
  with \<open>nl\<close> for the line break and the twelve spaces before the closing quotes.
\<close>

definition nl :: pystr where
  "nl = [10]"

definition doc_content :: "pystr \<Rightarrow> pystr \<Rightarrow> summary \<Rightarrow> pystr" where
  "doc_content today_str user_text summary =
     nl @ str ''Daily Check-in: '' @ today_str @ nl
     @ nl
     @ str ''Raw Response:'' @ nl
     @ user_text @ nl
     @ nl
     @ str ''Summary:'' @ nl
     @ written_bullet @ str '' Workout: '' @ get_or (workout summary) (str ''Not specified'') @ nl
     @ written_bullet @ str '' Eating Feelings: ''
         @ get_or (eating_feelings summary) (str ''Not specified'') @ nl
     @ written_bullet @ str '' Short-term Goals: ''
         @ join (str '', '') (get_or (short_term_goals summary) []) @ nl
     @ nl
     @ str ''---'' @ nl
     @ str ''            ''"

text \<open>
  \<open>append_to_doc\<close>, as the text of the document after its batch update: the three
  insertions put \<open>'\n' + heading + '\n'\<close>, \<open>content + '\n'\<close> and \<open>'\n'\<close> one
  after the other in front of the text that was there.
\<close>

definition append_to_doc :: "pystr \<Rightarrow> pystr \<Rightarrow> pystr \<Rightarrow> pystr" where
  "append_to_doc heading content old_text =
     nl @ heading @ nl @ content @ nl @ nl @ old_text"

text \<open>
  What the log holds after \<open>process_daily_response\<close> saved a summary, and the request
  that fetches it as one paragraph.
\<close>

definition saved_daily_text :: "pystr \<Rightarrow> pystr \<Rightarrow> summary \<Rightarrow> pystr \<Rightarrow> pystr" where
  "saved_daily_text today_str user_text summary old_text =
     append_to_doc (str ''Daily Check-in: '' @ today_str)
       (doc_content today_str user_text summary) old_text"

definition get_text :: "pystr \<Rightarrow> (nat, structural_element list) operation" where
  "get_text text n = (Inr [Some [Some text]], Suc n)"

text \<open>
  A document in the format the parser reads, with its lines and the records they hold.
\<close>

definition example_lines :: "pystr list" where
  "example_lines =
     [str ''Daily Check-in: 2024-05-02'',
      parsed_bullet @ str '' Workout:  5k run '',
      parsed_bullet @ str '' Eating Feelings: fine'',
      parsed_bullet @ str '' Short-term Goals: sleep earlier, , stretch'',
      str ''---'',
      str ''  Daily Check-in:  2024-05-01'',
      parsed_bullet @ str '' Short-term Goals: Not specified'',
      str ''---'']"

definition example_text :: pystr where
  "example_text = join nl example_lines"

definition example_records :: "summary list" where
  "example_records =
     [\<lparr>date = Some (str ''2024-05-02''), workout = Some (str ''5k run''),
       eating_feelings = Some (str ''fine''),
       short_term_goals = Some [str ''sleep earlier'', str ''stretch'']\<rparr>,
      \<lparr>date = Some (str ''2024-05-01''), workout = Some (str ''Not specified''),
       eating_feelings = Some (str ''Not specified''), short_term_goals = Some []\<rparr>]"

text \<open>Two properties of a record that the loops keep.\<close>

definition well_stripped :: "summary \<Rightarrow> bool" where
  "well_stripped r =
     ((\<exists>d. date r = Some d \<and> strip d = d)
      \<and> (\<exists>w. workout r = Some w \<and> strip w = w)
      \<and> (\<exists>e. eating_feelings r = Some e \<and> strip e = e)
      \<and> (\<exists>g. short_term_goals r = Some g
            \<and> (\<forall>x\<in>set g. x \<noteq> [] \<and> (\<exists>c\<in>set x. \<not> isspace c) \<and> strip x = x)))"

definition all_present :: "summary \<Rightarrow> bool" where
  "all_present r =
     (date r \<noteq> None \<and> workout r \<noteq> None \<and> eating_feelings r \<noteq> None
      \<and> short_term_goals r \<noteq> None)"

text \<open>
  Names for the tests of the two loops: the test of the outer loop for a heading,
  \<open>lines[i].strip().startswith('Daily Check-in:')\<close>, and the test that ends the inner
  loop, \<open>lines[j].strip().startswith('---')\<close>.  The lines of an entry are those that
  the inner loop reads after the heading: all the lines up to the first separator.
\<close>

definition is_heading :: "pystr \<Rightarrow> bool" where
  "is_heading l = startswith (strip l) (str ''Daily Check-in:'')"

definition is_separator :: "pystr \<Rightarrow> bool" where
  "is_separator l = startswith (strip l) (str ''---'')"

definition entry_lines :: "pystr list \<Rightarrow> pystr list" where
  "entry_lines ls = takeWhile (\<lambda>l. \<not> is_separator l) ls"

text \<open>
  The \<open>goals_text\<close> that the inner loop computes on a line, and the test under which
  it assigns \<open>summary_data['short_term_goals']\<close>: the stripped line starts with the
  goals prefix and \<open>goals_text and goals_text != 'Not specified'\<close>.
\<close>

definition goals_text :: "pystr \<Rightarrow> pystr" where
  "goals_text l = strip (replace (strip l) (parsed_bullet @ str '' Short-term Goals:'') [])"

definition sets_goals :: "pystr \<Rightarrow> bool" where
  "sets_goals l =
     (startswith (strip l) (parsed_bullet @ str '' Short-term Goals:'')
      \<and> goals_text l \<noteq> [] \<and> goals_text l \<noteq> str ''Not specified'')"

text \<open>
  An entry with two goals bullets, the second of which reads \<open>Not specified\<close>.
\<close>

definition two_goals_lines :: "pystr list" where
  "two_goals_lines =
     [str ''Daily Check-in: 2024-05-03'',
      parsed_bullet @ str '' Short-term Goals: run'',
      parsed_bullet @ str '' Short-term Goals: Not specified'',
      str ''---'']"

text \<open>
  The scenario of section 8 of the specification: the summary that the model returned
  for the check-in of one day, and the log after \<open>process_daily_response\<close> saved it
  to a document that was empty.
\<close>

definition scenario_summary :: summary where
  "scenario_summary =
     \<lparr>date = Some (str ''2024-05-01''), workout = Some (str ''5k run''),
      eating_feelings = Some (str ''Not specified''),
      short_term_goals = Some [str ''sleep earlier'']\<rparr>"

definition scenario_text :: pystr where
  "scenario_text = saved_daily_text (str ''2024-05-01'')
     (str ''Ran 5k, felt proud, want to sleep earlier this week'') scenario_summary nl"

section \<open>The stretch check (bot.py)\<close>

text \<open>
  \<open>process_stretch_response\<close>.  \<open>save_stretch_entry\<close> is imported from
  google\_docs.py, which does not define it: it is the parameter \<open>save\<close>, called with
  the date, the text and the flag.  The bot's fields are the two this function touches;
  \<open>pending_stretch_data\<close> is the \<open>'date'\<close> entry of the dict, if there is one, and
  \<open>now_iso\<close> is today's date in ISO format.  The three answers are named, not spelled.
\<close>

record bot =
  awaiting_stretch_response :: bool
  pending_stretch_data :: "pystr option"

datatype answer = GreatJob | ThanksForTheUpdate | SorryError

definition stretched_of :: "pystr \<Rightarrow> bool" where
  "stretched_of user_text =
     (let user_text_lower = lower user_text
      in contains user_text_lower (str ''yes'') \<or> contains user_text_lower (str ''yeah'')
         \<or> contains user_text_lower (str ''yep''))"

definition process_stretch_response ::
  "(pystr \<Rightarrow> pystr \<Rightarrow> bool \<Rightarrow> ('w, unit) operation) \<Rightarrow> pystr \<Rightarrow> pystr \<Rightarrow> bot \<times> 'w
     \<Rightarrow> answer \<times> bot \<times> 'w" where
  "process_stretch_response save now_iso user_text bw =
     (case bw of (b, w) \<Rightarrow>
        (let b1 = b\<lparr>awaiting_stretch_response := False\<rparr>;
             stretched = stretched_of user_text;
             today = get_or (pending_stretch_data b1) now_iso
         in case save today user_text stretched w of
              (Inl e, w1) \<Rightarrow> (SorryError, b1, w1)
            | (Inr u, w1) \<Rightarrow>
                (if stretched then GreatJob else ThanksForTheUpdate,
                 b1\<lparr>pending_stretch_data := None\<rparr>, w1)))"

text \<open>A document store that keeps what it is asked to save, newest first.\<close>

definition save_to_list ::
  "pystr \<Rightarrow> pystr \<Rightarrow> bool \<Rightarrow> ((pystr \<times> pystr \<times> bool) list, unit) operation" where
  "save_to_list d t b w = (Inr (), (d, t, b) # w)"

text \<open>
  Modelled from the spec: \<open>get_stretch_entry\<close> and the format of the stretch document
  are not in src/google\_docs.py (bot.py imports and calls the function).  Section 3 of the
  specification gives a StretchEntry the fields date, stretched and raw\_text and the log
  as a sequence of entries, newest first; section 4.3 has \<open>get_stretch_entry\<close> scan the
  entries for the one whose key matches \<open>date_key\<close> exactly and return the first match
  or signal absence, and has every read operation return an empty result, never raise,
  when the remote fetch fails.
\<close>

record stretch_entry =
  entry_date :: pystr
  stretched :: bool
  raw_text :: pystr

definition get_stretch_entry ::
  "exn + stretch_entry list \<Rightarrow> pystr \<Rightarrow> exn + stretch_entry option" where
  "get_stretch_entry fetched date_key =
     (case fetched of
        Inl e \<Rightarrow> Inr None
      | Inr entries \<Rightarrow> Inr (find (\<lambda>e. entry_date e = date_key) entries))"

text \<open>
  The decision of \<open>send_stretch_check\<close> in bot.py, which reads the two entries:
  \<open>if yesterday_entry and yesterday_entry.get('stretched', False)\<close> sends nothing,
  \<open>if today_entry\<close> sends nothing, and the reminder opens with one of two sentences.
\<close>

datatype stretch_check =
    StretchedYesterday
  | AlreadyHaveToday
  | RemindDidNotStretch
  | RemindNoRecord

definition send_stretch_check ::
  "stretch_entry option \<Rightarrow> stretch_entry option \<Rightarrow> stretch_check" where
  "send_stretch_check yesterday_entry today_entry =
     (if yesterday_entry \<noteq> None \<and> stretched (the yesterday_entry) then StretchedYesterday
      else if today_entry \<noteq> None then AlreadyHaveToday
      else if yesterday_entry \<noteq> None then RemindDidNotStretch
      else RemindNoRecord)"

text \<open>A stretch log with two entries for one date, newest first.\<close>

definition stretch_log :: "stretch_entry list" where
  "stretch_log =
     [\<lparr>entry_date = str ''2024-05-02'', stretched = False, raw_text = str ''no''\<rparr>,
      \<lparr>entry_date = str ''2024-05-01'', stretched = True, raw_text = str ''yes, again''\<rparr>,
      \<lparr>entry_date = str ''2024-05-01'', stretched = False, raw_text = str ''not yet''\<rparr>]"

section \<open>Properties of the retry wrappers\<close>
















section \<open>Properties of the extractor\<close>

lemma after_Suc_right: "after f (Suc n) w = snd (f (after f n w))"
  by (induction n arbitrary: w) simp_all



















section \<open>Properties of the document log\<close>

lemma dropWhile_rev_hd:
  assumes "\<not> P (hd xs)" and "xs \<noteq> []"
  shows "rev (dropWhile P (rev xs)) \<noteq> [] \<and> hd (rev (dropWhile P (rev xs))) = hd xs"
proof -
  obtain x xs' where xs: "xs = x # xs'" using assms(2) by (cases xs) auto
  have "dropWhile P (rev xs' @ [x]) = dropWhile P (rev xs') @ [x]"
    using assms(1) xs by (simp add: dropWhile_append)
  then show ?thesis using xs by simp
qed

lemma strip_hd: "strip s \<noteq> [] \<Longrightarrow> \<not> isspace (hd (strip s))"
proof -
  assume ne: "strip s \<noteq> []"
  let ?t = "dropWhile isspace s"
  have t: "?t \<noteq> []" using ne by (cases "dropWhile isspace s") (simp_all add: strip_def)
  then have h: "\<not> isspace (hd ?t)" by (rule hd_dropWhile)
  from dropWhile_rev_hd [of isspace ?t] h t show ?thesis
    by (simp add: strip_def)
qed

lemma strip_last: "strip s \<noteq> [] \<Longrightarrow> \<not> isspace (last (strip s))"
proof -
  assume ne: "strip s \<noteq> []"
  let ?u = "dropWhile isspace (rev (dropWhile isspace s))"
  have u: "?u \<noteq> []" using ne by (simp add: strip_def)
  have "last (strip s) = hd ?u" using u by (simp add: strip_def last_rev)
  then show ?thesis using hd_dropWhile [OF u] by simp
qed

lemma strip_fixed:
  assumes "s = [] \<or> (\<not> isspace (hd s) \<and> \<not> isspace (last s))"
  shows "strip s = s"
proof (cases "s = []")
  case True
  then show ?thesis by (simp add: strip_def)
next
  case False
  with assms have h: "\<not> isspace (hd s)" and l: "\<not> isspace (last s)" by auto
  have 1: "dropWhile isspace s = s" using h by (simp add: dropWhile_eq_self_iff)
  have "hd (rev s) = last s" using False by (simp add: hd_rev)
  then have 2: "dropWhile isspace (rev s) = rev s" using l by (simp add: dropWhile_eq_self_iff)
  show ?thesis by (simp add: strip_def 1 2)
qed

lemma strip_strip [simp]: "strip (strip s) = strip s"
  by (rule strip_fixed) (use strip_hd strip_last in blast)

lemma strip_str_Not_specified [simp]: "strip (str ''Not specified'') = str ''Not specified''"
  by (simp add: strip_def str_def isspace_def)

lemma strip_Nil [simp]: "strip [] = []"
  by (simp add: strip_def)

lemma strip_nonspace: "strip s \<noteq> [] \<Longrightarrow> \<exists>c\<in>set (strip s). \<not> isspace c"
  using strip_hd [of s] by (metis hd_in_set)

lemma scan_entry_snd:
  "snd (scan_entry ls sd) = dropWhile (\<lambda>l. \<not> startswith (strip l) (str ''---'')) ls"
  by (induction ls arbitrary: sd) simp_all

lemma scan_entry_fst:
  "fst (scan_entry ls sd) =
     foldl (\<lambda>r l. parse_line_content (strip l) r) sd
       (takeWhile (\<lambda>l. \<not> startswith (strip l) (str ''---'')) ls)"
  by (induction ls arbitrary: sd) simp_all

lemma scan_entry_invariant:
  assumes "P sd" and "\<And>l r. P r \<Longrightarrow> P (parse_line_content l r)"
  shows "P (fst (scan_entry ls sd))"
  using assms(1) by (induction ls arbitrary: sd) (simp_all add: assms(2))

lemma parse_lines_Cons_limit:
  "\<not> int (length summaries) < days \<Longrightarrow> parse_lines days (l # ls) summaries = summaries"
  by (subst parse_lines.simps) simp

lemma parse_lines_Cons_heading:
  "int (length summaries) < days \<Longrightarrow> startswith (strip l) (str ''Daily Check-in:'') \<Longrightarrow>
   parse_lines days (l # ls) summaries =
     parse_lines days
       (snd (scan_entry ls
          (new_summary_data (strip (replace (strip l) (str ''Daily Check-in:'') [])))))
       (summaries @
        [fst (scan_entry ls
           (new_summary_data (strip (replace (strip l) (str ''Daily Check-in:'') []))))])"
  by (subst parse_lines.simps) simp

lemma parse_lines_Cons_other:
  "int (length summaries) < days \<Longrightarrow> \<not> startswith (strip l) (str ''Daily Check-in:'') \<Longrightarrow>
   parse_lines days (l # ls) summaries = parse_lines days ls summaries"
  by (subst parse_lines.simps) simp

lemma parse_lines_Nil: "parse_lines days [] summaries = summaries"
  by (subst parse_lines.simps) simp

lemma parse_lines_invariant:
  assumes new: "\<And>d. P (new_summary_data (strip d))"
    and step: "\<And>l r. P r \<Longrightarrow> P (parse_line_content l r)"
    and acc: "\<forall>r\<in>set acc. P r"
  shows "\<forall>r\<in>set (parse_lines days ls acc). P r"
  using acc
proof (induction days ls acc rule: parse_lines.induct)
  case (1 days summaries)
  then show ?case by (simp only: parse_lines_Nil)
next
  case (2 days l ls summaries)
  show ?case
  proof (cases "int (length summaries) < days")
    case False
    show ?thesis using "2.prems" by (simp only: parse_lines_Cons_limit [OF False])
  next
    case lim: True
    show ?thesis
    proof (cases "startswith (strip l) (str ''Daily Check-in:'')")
      case True
      let ?sd = "new_summary_data (strip (replace (strip l) (str ''Daily Check-in:'') []))"
      have "P (fst (scan_entry ls ?sd))"
        by (rule scan_entry_invariant) (rule new, rule step)
      with "2.prems" have "\<forall>r\<in>set (summaries @ [fst (scan_entry ls ?sd)]). P r"
        by simp
      from "2.IH"(1) [OF lim True this] show ?thesis
        by (simp only: parse_lines_Cons_heading [OF lim True])
    next
      case False
      from "2.IH"(2) [OF lim False "2.prems"] show ?thesis
        by (simp only: parse_lines_Cons_other [OF lim False])
    qed
  qed
qed

lemma parse_lines_prefix: "prefix acc (parse_lines days ls acc)"
proof (induction days ls acc rule: parse_lines.induct)
  case (1 days summaries)
  then show ?case by (simp only: parse_lines_Nil prefix_order.order_refl)
next
  case (2 days l ls summaries)
  show ?case
  proof (cases "int (length summaries) < days")
    case False
    show ?thesis by (simp only: parse_lines_Cons_limit [OF False] prefix_order.order_refl)
  next
    case lim: True
    show ?thesis
    proof (cases "startswith (strip l) (str ''Daily Check-in:'')")
      case True
      from "2.IH"(1) [OF lim True] show ?thesis
        unfolding parse_lines_Cons_heading [OF lim True] by (rule append_prefixD)
    next
      case False
      from "2.IH"(2) [OF lim False] show ?thesis
        by (simp only: parse_lines_Cons_other [OF lim False])
    qed
  qed
qed

lemma parse_lines_length:
  "int (length acc) \<le> days \<Longrightarrow> int (length (parse_lines days ls acc)) \<le> days"
proof (induction days ls acc rule: parse_lines.induct)
  case (1 days summaries)
  then show ?case by (simp only: parse_lines_Nil)
next
  case (2 days l ls summaries)
  show ?case
  proof (cases "int (length summaries) < days")
    case False
    show ?thesis using "2.prems" by (simp only: parse_lines_Cons_limit [OF False])
  next
    case lim: True
    show ?thesis
    proof (cases "startswith (strip l) (str ''Daily Check-in:'')")
      case True
      let ?sd = "new_summary_data (strip (replace (strip l) (str ''Daily Check-in:'') []))"
      have "int (length (summaries @ [fst (scan_entry ls ?sd)])) \<le> days"
        using lim by simp
      from "2.IH"(1) [OF lim True this] show ?thesis
        by (simp only: parse_lines_Cons_heading [OF lim True])
    next
      case False
      from "2.IH"(2) [OF lim False "2.prems"] show ?thesis
        by (simp only: parse_lines_Cons_other [OF lim False])
    qed
  qed
qed

lemma parse_lines_take:
  "days \<le> m \<Longrightarrow> int (length acc) \<le> days \<Longrightarrow>
   parse_lines days ls acc = take (nat days) (parse_lines m ls acc)"
proof (induction m ls acc rule: parse_lines.induct)
  case (1 m summaries)
  then show ?case by (simp add: parse_lines_Nil)
next
  case (2 m l ls summaries)
  show ?case
  proof (cases "int (length summaries) < days")
    case lim: True
    with "2.prems" have limm: "int (length summaries) < m" by simp
    show ?thesis
    proof (cases "startswith (strip l) (str ''Daily Check-in:'')")
      case True
      let ?sd = "new_summary_data (strip (replace (strip l) (str ''Daily Check-in:'') []))"
      have "int (length (summaries @ [fst (scan_entry ls ?sd)])) \<le> days"
        using lim by simp
      from "2.IH"(1) [OF limm True "2.prems"(1) this] show ?thesis
        by (simp only: parse_lines_Cons_heading [OF lim True]
            parse_lines_Cons_heading [OF limm True])
    next
      case False
      from "2.IH"(2) [OF limm False "2.prems"] show ?thesis
        by (simp only: parse_lines_Cons_other [OF lim False]
            parse_lines_Cons_other [OF limm False])
    qed
  next
    case False
    with "2.prems" have len: "length summaries = nat days" by simp
    have "prefix summaries (parse_lines m (l # ls) summaries)"
      by (rule parse_lines_prefix)
    then obtain ys where ys: "parse_lines m (l # ls) summaries = summaries @ ys"
      by (auto simp: prefix_def)
    show ?thesis
      unfolding parse_lines_Cons_limit [OF False] ys using len by simp
  qed
qed

lemma parse_line_content_date [simp]: "date (parse_line_content l r) = date r"
  by (simp add: parse_line_content_def Let_def)

lemma scan_entry_date [simp]: "date (fst (scan_entry ls sd)) = date sd"
  by (rule scan_entry_invariant [where P = "\<lambda>r. date r = date sd"]) simp_all

lemma parse_lines_dates:
  "\<exists>ys. parse_lines days ls acc = acc @ ys \<and>
     subseq (map date ys)
       (map (\<lambda>l. Some (strip (replace (strip l) (str ''Daily Check-in:'') [])))
          (filter (\<lambda>l. startswith (strip l) (str ''Daily Check-in:'')) ls))"
proof (induction days ls acc rule: parse_lines.induct)
  case (1 days summaries)
  show ?case by (simp add: parse_lines_Nil)
next
  case (2 days l ls summaries)
  let ?H = "\<lambda>ls. map (\<lambda>l. Some (strip (replace (strip l) (str ''Daily Check-in:'') [])))
          (filter (\<lambda>l. startswith (strip l) (str ''Daily Check-in:'')) ls)"
  show ?case
  proof (cases "int (length summaries) < days")
    case False
    show ?thesis by (simp add: parse_lines_Cons_limit [OF False])
  next
    case lim: True
    show ?thesis
    proof (cases "startswith (strip l) (str ''Daily Check-in:'')")
      case True
      let ?sd = "new_summary_data (strip (replace (strip l) (str ''Daily Check-in:'') []))"
      let ?rest = "snd (scan_entry ls ?sd)"
      let ?e = "fst (scan_entry ls ?sd)"
      from "2.IH"(1) [OF lim True] obtain ys where
        ys: "parse_lines days ?rest (summaries @ [?e]) = (summaries @ [?e]) @ ys"
        and sub: "subseq (map date ys) (?H ?rest)" by blast
      have "suffix ?rest ls" unfolding scan_entry_snd by (rule suffix_dropWhile)
      then have "suffix (?H ?rest) (?H ls)"
        by (intro map_mono_suffix filter_mono_suffix)
      then have "subseq (?H ?rest) (?H ls)" by (rule suffix_imp_subseq)
      with sub have "subseq (map date ys) (?H ls)" by (rule subseq_order.order_trans)
      then have "subseq (map date (?e # ys)) (?H (l # ls))"
        using True by (simp add: new_summary_data_def)
      moreover have "parse_lines days (l # ls) summaries = summaries @ (?e # ys)"
        unfolding parse_lines_Cons_heading [OF lim True] ys by simp
      ultimately show ?thesis by blast
    next
      case False
      from "2.IH"(2) [OF lim False] show ?thesis
        unfolding parse_lines_Cons_other [OF lim False] using False by simp
    qed
  qed
qed

lemma separator_not_heading:
  "startswith x (str ''---'') \<Longrightarrow> \<not> startswith x (str ''Daily Check-in:'')"
  by (cases x) (auto simp: startswith_def str_def)

lemma dropWhile_closed:
  assumes "\<not> Q sep"
  shows "dropWhile Q (ls @ sep # extra) = dropWhile Q (ls @ [sep]) @ extra"
    and "takeWhile Q (ls @ sep # extra) = takeWhile Q (ls @ [sep])"
    and "\<exists>rest. dropWhile Q (ls @ [sep]) = rest @ [sep] \<and> length rest \<le> length ls"
  using assms by (induction ls) (auto intro: le_SucI)

lemma parse_lines_full: "\<not> int (length acc) < days \<Longrightarrow> parse_lines days ls acc = acc"
  by (cases ls) (simp_all add: parse_lines_Nil parse_lines_Cons_limit)

lemma parse_lines_append:
  assumes sep: "startswith (strip sep) (str ''---'')"
  shows "parse_lines days (ls @ sep # extra) acc =
     parse_lines days extra (parse_lines days (ls @ [sep]) acc)"
proof (induction "length ls" arbitrary: ls acc rule: less_induct)
  case less
  let ?Q = "\<lambda>l. \<not> startswith (strip l) (str ''---'')"
  have nq: "\<not> ?Q sep" using sep by simp
  have nh: "\<not> startswith (strip sep) (str ''Daily Check-in:'')"
    using sep by (rule separator_not_heading)
  show ?case
  proof (cases "int (length acc) < days")
    case False
    show ?thesis by (simp only: parse_lines_full [OF False])
  next
    case lim: True
    show ?thesis
    proof (cases ls)
      case Nil
      with lim nh show ?thesis
        by (simp add: parse_lines_Cons_other [OF lim nh] parse_lines_Nil)
    next
      case (Cons l ls')
      show ?thesis
      proof (cases "startswith (strip l) (str ''Daily Check-in:'')")
        case False
        from less.hyps [of ls' acc] Cons show ?thesis
          by (simp add: parse_lines_Cons_other [OF lim False])
      next
        case True
        let ?sd = "new_summary_data (strip (replace (strip l) (str ''Daily Check-in:'') []))"
        from dropWhile_closed(3) [of ?Q sep ls'] nq obtain rest where
          rest: "dropWhile ?Q (ls' @ [sep]) = rest @ [sep]" "length rest \<le> length ls'"
          by blast
        have s1: "snd (scan_entry (ls' @ sep # extra) ?sd) = rest @ sep # extra"
          unfolding scan_entry_snd using dropWhile_closed(1) [of ?Q sep ls' extra] nq rest(1)
          by simp
        have s2: "snd (scan_entry (ls' @ [sep]) ?sd) = rest @ [sep]"
          unfolding scan_entry_snd using rest(1) by simp
        have f: "fst (scan_entry (ls' @ sep # extra) ?sd) = fst (scan_entry (ls' @ [sep]) ?sd)"
          unfolding scan_entry_fst using dropWhile_closed(2) [of ?Q sep ls' extra] nq by simp
        let ?acc = "acc @ [fst (scan_entry (ls' @ [sep]) ?sd)]"
        have "length rest < length ls" using rest(2) Cons by simp
        then have "parse_lines days (rest @ sep # extra) ?acc =
            parse_lines days extra (parse_lines days (rest @ [sep]) ?acc)"
          by (rule less.hyps)
        then show ?thesis
          using Cons by (simp add: parse_lines_Cons_heading [OF lim True] s1 s2 f)
      qed
    qed
  qed
qed

lemma parse_lines_closed:
  assumes "startswith (strip sep) (str ''---'')"
    and "days \<le> int (length (parse_lines days (ls @ [sep]) acc))"
  shows "parse_lines days (ls @ sep # extra) acc = parse_lines days (ls @ [sep]) acc"
proof -
  have "\<not> int (length (parse_lines days (ls @ [sep]) acc)) < days"
    using assms(2) by simp
  then have "parse_lines days extra (parse_lines days (ls @ [sep]) acc) =
      parse_lines days (ls @ [sep]) acc"
    by (rule parse_lines_full)
  with parse_lines_append [OF assms(1), of days ls extra acc] show ?thesis
    by (rule trans)
qed

lemma ex1: "split example_text 10 = example_lines"
  by code_simp

lemma ex2: "fst (get_daily_summaries_from_doc small_floats default_config (get_text example_text) 7 fresh)
   = example_records"
  by code_simp

lemma parse_lines_nonpos: "days \<le> 0 \<Longrightarrow> parse_lines days ls [] = []"
  by (cases ls) (simp_all add: parse_lines_Nil parse_lines_Cons_limit)

lemma parse_document_length: "length (parse_document content days) \<le> nat days"
proof (cases "0 \<le> days")
  case True
  then have "int (length (parse_lines days (split (full_text content) 10) [])) \<le> days"
    by (intro parse_lines_length) simp
  then show ?thesis by (simp add: parse_document_def)
next
  case False
  then show ?thesis by (simp add: parse_document_def parse_lines_nonpos)
qed

lemma parse_document_take:
  "days \<le> m \<Longrightarrow> parse_document content days = take (nat days) (parse_document content m)"
proof (cases "0 \<le> days")
  case True
  assume "days \<le> m"
  then show ?thesis
    unfolding parse_document_def using True by (intro parse_lines_take) simp_all
next
  case False
  then show ?thesis by (simp add: parse_document_def parse_lines_nonpos)
qed

lemma parse_document_dates:
  "subseq (map date (parse_document content days))
     (map (\<lambda>l. Some (strip (replace (strip l) (str ''Daily Check-in:'') [])))
        (filter (\<lambda>l. startswith (strip l) (str ''Daily Check-in:''))
           (split (full_text content) 10)))"
  using parse_lines_dates [of days "split (full_text content) 10" "[]"]
  by (auto simp: parse_document_def)

lemma get_daily_summaries_fst:
  "fst (get_daily_summaries_from_doc rt cfg get days s) =
     (case fst (google_retry_with_backoff rt cfg get s) of
        Inl e \<Rightarrow> []
      | Inr content \<Rightarrow> parse_document content days)"
  by (simp add: get_daily_summaries_from_doc_def split: prod.splits sum.splits)

text \<open>
  Claim C8.  For every document and every limit, \<open>get_daily_summaries_from_doc\<close>
  returns at most \<open>days\<close> records; a smaller limit returns the first records of what
  a greater limit returns; the dates of the records follow the heading lines of the
  document from top to bottom; the records of the lines above a separator line come
  before those of the lines below it; and once the limit is reached at a separator line,
  the lines after it change nothing, however many they are.
\<close>

theorem daily_summaries_limit_and_order:
  fixes s :: "('w, 'f) io"
  shows "length (fst (get_daily_summaries_from_doc rt cfg get days s)) \<le> nat days
    \<and> (days \<le> m \<longrightarrow>
         fst (get_daily_summaries_from_doc rt cfg get days s) =
         take (nat days) (fst (get_daily_summaries_from_doc rt cfg get m s)))
    \<and> (fst (google_retry_with_backoff rt cfg get s) = Inr content \<longrightarrow>
         fst (get_daily_summaries_from_doc rt cfg get days s) = parse_document content days
         \<and> subseq (map date (fst (get_daily_summaries_from_doc rt cfg get days s)))
             (map (\<lambda>l. Some (strip (replace (strip l) (str ''Daily Check-in:'') [])))
                (filter (\<lambda>l. startswith (strip l) (str ''Daily Check-in:''))
                   (split (full_text content) 10))))
    \<and> (startswith (strip sep) (str ''---'')
       \<longrightarrow> parse_lines days (ls @ sep # extra) [] =
           parse_lines days extra (parse_lines days (ls @ [sep]) []))
    \<and> (startswith (strip sep) (str ''---'')
         \<and> days \<le> int (length (parse_lines days (ls @ [sep]) []))
       \<longrightarrow> parse_lines days (ls @ sep # extra) [] = parse_lines days (ls @ [sep]) [])"
proof (intro conjI impI)
  show "length (fst (get_daily_summaries_from_doc rt cfg get days s)) \<le> nat days"
    by (simp add: get_daily_summaries_fst parse_document_length split: sum.splits)
next
  assume "days \<le> m"
  then show "fst (get_daily_summaries_from_doc rt cfg get days s) =
         take (nat days) (fst (get_daily_summaries_from_doc rt cfg get m s))"
    by (simp add: get_daily_summaries_fst parse_document_take [of days m] split: sum.splits)
next
  assume c: "fst (google_retry_with_backoff rt cfg get s) = Inr content"
  then show r: "fst (get_daily_summaries_from_doc rt cfg get days s) = parse_document content days"
    by (simp add: get_daily_summaries_fst)
  show "subseq (map date (fst (get_daily_summaries_from_doc rt cfg get days s)))
             (map (\<lambda>l. Some (strip (replace (strip l) (str ''Daily Check-in:'') [])))
                (filter (\<lambda>l. startswith (strip l) (str ''Daily Check-in:''))
                   (split (full_text content) 10)))"
    unfolding r by (rule parse_document_dates)
next
  assume "startswith (strip sep) (str ''---'')"
  then show "parse_lines days (ls @ sep # extra) [] =
           parse_lines days extra (parse_lines days (ls @ [sep]) [])"
    by (rule parse_lines_append)
next
  assume "startswith (strip sep) (str ''---'')
         \<and> days \<le> int (length (parse_lines days (ls @ [sep]) []))"
  then show "parse_lines days (ls @ sep # extra) [] = parse_lines days (ls @ [sep]) []"
    by (intro parse_lines_closed) simp_all
qed

lemma ex4: "fst (google_retry_with_backoff small_floats default_config (get_text example_text) fresh)
   = Inr [Some [Some example_text]]"
  by code_simp

lemma ex5: "parse_lines 1 (take 4 example_lines @ [str ''---'']) [] = take 1 example_records"
  by code_simp

lemma ex6: "startswith (strip (str ''---'')) (str ''---'')"
  by code_simp

lemma ex7: "take 4 example_lines @ str ''---'' # drop 5 example_lines = example_lines"
  by code_simp

theorem daily_summaries_limit_and_order_witness:
  "length (fst (get_daily_summaries_from_doc small_floats default_config (get_text example_text) 1 fresh)) \<le> 1
   \<and> fst (get_daily_summaries_from_doc small_floats default_config (get_text example_text) 1 fresh) =
       take 1 (fst (get_daily_summaries_from_doc small_floats default_config (get_text example_text) 7 fresh))
   \<and> subseq (map date
         (fst (get_daily_summaries_from_doc small_floats default_config (get_text example_text) 1 fresh)))
       [Some (str ''2024-05-02''), Some (str ''2024-05-01'')]
   \<and> parse_lines 7 example_lines [] =
       parse_lines 7 (drop 5 example_lines) (parse_lines 7 (take 4 example_lines @ [str ''---'']) [])
   \<and> parse_lines 1 example_lines [] = parse_lines 1 (take 4 example_lines @ [str ''---'']) []"
proof -
  have h: "map (\<lambda>l. Some (strip (replace (strip l) (str ''Daily Check-in:'') [])))
      (filter (\<lambda>l. startswith (strip l) (str ''Daily Check-in:''))
         (split (full_text [Some [Some example_text]]) 10)) =
      [Some (str ''2024-05-02''), Some (str ''2024-05-01'')]"
    by code_simp
  have l: "(1::int) \<le> int (length (take 1 example_records))"
    by (simp add: example_records_def)
  note t = daily_summaries_limit_and_order [of small_floats default_config "get_text example_text" 1 fresh 7
        "[Some [Some example_text]]" "str ''---''" "take 4 example_lines" "drop 5 example_lines"]
  from t have c1: "length (fst (get_daily_summaries_from_doc small_floats default_config
      (get_text example_text) 1 fresh)) \<le> 1"
    by simp
  from t have c2: "fst (get_daily_summaries_from_doc small_floats default_config (get_text example_text) 1 fresh) =
       take 1 (fst (get_daily_summaries_from_doc small_floats default_config (get_text example_text) 7 fresh))"
    by simp
  from t ex4 have c3: "subseq (map date
         (fst (get_daily_summaries_from_doc small_floats default_config (get_text example_text) 1 fresh)))
       [Some (str ''2024-05-02''), Some (str ''2024-05-01'')]"
    unfolding h by blast
  from t ex6 l have c4: "parse_lines 1 example_lines [] =
      parse_lines 1 (take 4 example_lines @ [str ''---'']) []"
    unfolding ex5 ex7 by blast
  note t7 = daily_summaries_limit_and_order [of small_floats default_config "get_text example_text" 7 fresh 7
        "[Some [Some example_text]]" "str ''---''" "take 4 example_lines" "drop 5 example_lines"]
  from t7 ex6 have c5: "parse_lines 7 example_lines [] =
      parse_lines 7 (drop 5 example_lines) (parse_lines 7 (take 4 example_lines @ [str ''---'']) [])"
    unfolding ex7 by blast
  from c1 c2 c3 c4 c5 show ?thesis by blast
qed

lemma well_stripped_new: "well_stripped (new_summary_data (strip d))"
  by (simp add: well_stripped_def new_summary_data_def)

lemma well_stripped_step: "well_stripped r \<Longrightarrow> well_stripped (parse_line_content l r)"
  by (auto simp: well_stripped_def parse_line_content_def Let_def dest: strip_nonspace)

lemma get_daily_summaries_invariant:
  assumes "\<And>d. P (new_summary_data (strip d))"
    and "\<And>l r. P r \<Longrightarrow> P (parse_line_content l r)"
  shows "\<forall>r\<in>set (fst (get_daily_summaries_from_doc rt cfg get days s)). P r"
proof -
  have "\<forall>r\<in>set (parse_document content days). P r" for content
    unfolding parse_document_def by (rule parse_lines_invariant) (simp_all add: assms)
  then show ?thesis
    by (cases "fst (google_retry_with_backoff rt cfg get s)")
       (simp_all add: get_daily_summaries_fst)
qed

lemma goals_prefix_only:
  assumes "startswith lc (parsed_bullet @ str '' Short-term Goals:'')"
  shows "\<not> startswith lc (parsed_bullet @ str '' Workout:'')"
    and "\<not> startswith lc (parsed_bullet @ str '' Eating Feelings:'')"
proof -
  have 1: "\<not> prefix (parsed_bullet @ str '' Short-term Goals:'') (parsed_bullet @ str '' Workout:'')"
    "\<not> prefix (parsed_bullet @ str '' Workout:'') (parsed_bullet @ str '' Short-term Goals:'')"
    "\<not> prefix (parsed_bullet @ str '' Short-term Goals:'')
         (parsed_bullet @ str '' Eating Feelings:'')"
    "\<not> prefix (parsed_bullet @ str '' Eating Feelings:'')
         (parsed_bullet @ str '' Short-term Goals:'')"
    by (simp_all add: str_def)
  show "\<not> startswith lc (parsed_bullet @ str '' Workout:'')"
    using assms 1(1,2) unfolding startswith_def by (meson prefix_same_cases)
  show "\<not> startswith lc (parsed_bullet @ str '' Eating Feelings:'')"
    using assms 1(3,4) unfolding startswith_def by (meson prefix_same_cases)
qed

lemma goals_line:
  assumes "startswith lc (parsed_bullet @ str '' Short-term Goals:'')"
  shows "parse_line_content lc r =
     (let t = strip (replace lc (parsed_bullet @ str '' Short-term Goals:'') [])
      in if t \<noteq> [] \<and> t \<noteq> str ''Not specified'' then
           r\<lparr>short_term_goals :=
             Some (map strip (filter (\<lambda>goal. strip goal \<noteq> []) (split t 44)))\<rparr>
         else r)"
  using assms goals_prefix_only [OF assms] by (simp add: parse_line_content_def)

lemma sets_goals_step:
  "sets_goals l \<Longrightarrow> short_term_goals (parse_line_content (strip l) r) =
     Some (map strip (filter (\<lambda>goal. strip goal \<noteq> []) (split (goals_text l) 44)))"
  by (simp add: sets_goals_def goals_text_def goals_line Let_def)

lemma not_sets_goals_step:
  assumes "\<not> sets_goals l"
  shows "short_term_goals (parse_line_content (strip l) r) = short_term_goals r"
proof (cases "startswith (strip l) (parsed_bullet @ str '' Short-term Goals:'')")
  case True
  with assms show ?thesis by (auto simp: sets_goals_def goals_text_def goals_line Let_def)
next
  case False
  then show ?thesis by (simp add: parse_line_content_def Let_def)
qed

lemma foldl_goals_kept:
  "\<forall>l\<in>set post. \<not> sets_goals l \<Longrightarrow>
   short_term_goals (foldl (\<lambda>r l. parse_line_content (strip l) r) r0 post) = short_term_goals r0"
  by (induction post arbitrary: r0) (simp_all add: not_sets_goals_step)

lemma foldl_goals_last:
  assumes "sets_goals g" and "\<forall>l\<in>set post. \<not> sets_goals l"
  shows "short_term_goals (foldl (\<lambda>r l. parse_line_content (strip l) r) r0 (pre @ g # post)) =
     Some (map strip (filter (\<lambda>goal. strip goal \<noteq> []) (split (goals_text g) 44)))"
  using assms by (simp add: foldl_goals_kept sets_goals_step)

lemma parse_lines_skip:
  "\<forall>l\<in>set junk. \<not> is_heading l \<Longrightarrow>
   parse_lines days (junk @ rest) acc = parse_lines days rest acc"
proof (induction junk)
  case Nil
  then show ?case by simp
next
  case (Cons l junk)
  show ?case
  proof (cases "int (length acc) < days")
    case True
    from Cons.prems have nh: "\<not> startswith (strip l) (str ''Daily Check-in:'')"
      by (simp add: is_heading_def)
    from Cons show ?thesis
      by (simp add: parse_lines_Cons_other [OF True nh])
  next
    case False
    then show ?thesis by (simp only: parse_lines_full [OF False])
  qed
qed

lemma parse_lines_front:
  assumes "front = [] \<or> is_separator (last front)"
  shows "parse_lines days (front @ rest) [] = parse_lines days rest (parse_lines days front [])"
proof (cases "front = []")
  case True
  then show ?thesis by (simp add: parse_lines_Nil)
next
  case False
  with assms have sep: "startswith (strip (last front)) (str ''---'')"
    by (simp add: is_separator_def)
  from False have f: "front = butlast front @ [last front]" by simp
  have "parse_lines days (butlast front @ last front # rest) [] =
      parse_lines days rest (parse_lines days (butlast front @ [last front]) [])"
    using sep by (rule parse_lines_append)
  moreover have "butlast front @ last front # rest = front @ rest"
    using False by (metis append.assoc append_Cons append_Nil f)
  ultimately show ?thesis using f by simp
qed

lemma parse_lines_entry:
  assumes "int (length acc) < days" and "is_heading h"
  shows "length acc < length (parse_lines days (h # ls) acc)
     \<and> parse_lines days (h # ls) acc ! length acc =
         foldl (\<lambda>r l. parse_line_content (strip l) r)
           (new_summary_data (strip (replace (strip h) (str ''Daily Check-in:'') [])))
           (entry_lines ls)"
proof -
  let ?sd = "new_summary_data (strip (replace (strip h) (str ''Daily Check-in:'') []))"
  let ?e = "fst (scan_entry ls ?sd)"
  have h: "startswith (strip h) (str ''Daily Check-in:'')"
    using assms(2) by (simp add: is_heading_def)
  have "prefix (acc @ [?e]) (parse_lines days (snd (scan_entry ls ?sd)) (acc @ [?e]))"
    by (rule parse_lines_prefix)
  then obtain ys where "parse_lines days (h # ls) acc = (acc @ [?e]) @ ys"
    unfolding parse_lines_Cons_heading [OF assms(1) h] by (auto simp: prefix_def)
  then have "length acc < length (parse_lines days (h # ls) acc)"
    "parse_lines days (h # ls) acc ! length acc = ?e"
    by (simp_all add: nth_append)
  then show ?thesis
    by (simp add: scan_entry_fst entry_lines_def is_separator_def)
qed

lemma parse_lines_record:
  assumes "front = [] \<or> is_separator (last front)"
    and "\<forall>l\<in>set junk. \<not> is_heading l"
    and "is_heading h"
    and "int (length (parse_lines days front [])) < days"
  shows "length (parse_lines days front []) < length (parse_lines days (front @ junk @ h # ls) [])
     \<and> parse_lines days (front @ junk @ h # ls) [] ! length (parse_lines days front []) =
         foldl (\<lambda>r l. parse_line_content (strip l) r)
           (new_summary_data (strip (replace (strip h) (str ''Daily Check-in:'') [])))
           (entry_lines ls)"
proof -
  have "parse_lines days (front @ junk @ h # ls) [] =
      parse_lines days (h # ls) (parse_lines days front [])"
    by (simp only: parse_lines_front [OF assms(1)] parse_lines_skip [OF assms(2)])
  then show ?thesis
    using parse_lines_entry [OF assms(4,3), of ls] by simp
qed

lemma foldl_date:
  "date (foldl (\<lambda>r l. parse_line_content (strip l) r) r0 ls) = date r0"
  by (induction ls arbitrary: r0) simp_all

text \<open>
  Claim C10, as amended.  In every record that \<open>get_daily_summaries_from_doc\<close>
  returns, the date, the workout and the eating feelings are whitespace-stripped and no
  goal is empty or made of whitespace only.  Let the fetched document have a heading line
  \<open>h\<close> at which the outer loop starts an entry: the lines \<open>front\<close> above it
  are none or end with a separator line, no line of \<open>junk\<close> between them and
  \<open>h\<close> is a heading, and the \<open>k\<close> records of \<open>front\<close> are fewer than
  \<open>days\<close>.  Then the record number \<open>k\<close> is the one of this entry: it has the date
  of \<open>h\<close>; its goals are those of the last line of the entry on which the goals are
  assigned, the goals text of that line split on commas, each part stripped and the parts
  that are empty after stripping dropped; and it has the empty list of goals when the
  entry has no such line.  A goals bullet that reads \<open>Not specified\<close> assigns
  nothing.
\<close>

theorem parsed_records_are_stripped:
  fixes s :: "('w, 'f) io"
  shows "(\<forall>r\<in>set (fst (get_daily_summaries_from_doc rt cfg get days s)).
        (\<exists>d. date r = Some d \<and> strip d = d)
        \<and> (\<exists>w. workout r = Some w \<and> strip w = w)
        \<and> (\<exists>e. eating_feelings r = Some e \<and> strip e = e)
        \<and> (\<exists>g. short_term_goals r = Some g
              \<and> (\<forall>x\<in>set g. x \<noteq> [] \<and> (\<exists>c\<in>set x. \<not> isspace c) \<and> strip x = x)))
    \<and> (fst (google_retry_with_backoff rt cfg get s) = Inr content
        \<and> split (full_text content) 10 = front @ junk @ h # ls
        \<and> (front = [] \<or> is_separator (last front))
        \<and> (\<forall>l\<in>set junk. \<not> is_heading l) \<and> is_heading h
        \<and> k = length (parse_lines days front []) \<and> int k < days
      \<longrightarrow> k < length (fst (get_daily_summaries_from_doc rt cfg get days s))
        \<and> date (fst (get_daily_summaries_from_doc rt cfg get days s) ! k) =
            Some (strip (replace (strip h) (str ''Daily Check-in:'') []))
        \<and> (entry_lines ls = pre @ g # post \<and> sets_goals g \<and> (\<forall>l\<in>set post. \<not> sets_goals l)
          \<longrightarrow> short_term_goals (fst (get_daily_summaries_from_doc rt cfg get days s) ! k) =
                Some (map strip (filter (\<lambda>goal. strip goal \<noteq> []) (split (goals_text g) 44))))
        \<and> ((\<forall>l\<in>set (entry_lines ls). \<not> sets_goals l)
          \<longrightarrow> short_term_goals (fst (get_daily_summaries_from_doc rt cfg get days s) ! k) =
                Some []))"
proof (intro conjI impI)
  have "\<forall>r\<in>set (fst (get_daily_summaries_from_doc rt cfg get days s)). well_stripped r"
    by (rule get_daily_summaries_invariant) (rule well_stripped_new, rule well_stripped_step)
  then show "\<forall>r\<in>set (fst (get_daily_summaries_from_doc rt cfg get days s)).
        (\<exists>d. date r = Some d \<and> strip d = d)
        \<and> (\<exists>w. workout r = Some w \<and> strip w = w)
        \<and> (\<exists>e. eating_feelings r = Some e \<and> strip e = e)
        \<and> (\<exists>g. short_term_goals r = Some g
              \<and> (\<forall>x\<in>set g. x \<noteq> [] \<and> (\<exists>c\<in>set x. \<not> isspace c) \<and> strip x = x))"
    unfolding well_stripped_def .
next
  let ?res = "fst (get_daily_summaries_from_doc rt cfg get days s)"
  let ?sd = "new_summary_data (strip (replace (strip h) (str ''Daily Check-in:'') []))"
  let ?step = "\<lambda>r l. parse_line_content (strip l) r"
  assume a: "fst (google_retry_with_backoff rt cfg get s) = Inr content
        \<and> split (full_text content) 10 = front @ junk @ h # ls
        \<and> (front = [] \<or> is_separator (last front))
        \<and> (\<forall>l\<in>set junk. \<not> is_heading l) \<and> is_heading h
        \<and> k = length (parse_lines days front []) \<and> int k < days"
  then have res: "?res = parse_lines days (front @ junk @ h # ls) []"
    by (simp add: get_daily_summaries_fst parse_document_def)
  from a have 1: "front = [] \<or> is_separator (last front)" and 2: "\<forall>l\<in>set junk. \<not> is_heading l"
    and 3: "is_heading h" and 4: "int (length (parse_lines days front [])) < days"
    and k: "k = length (parse_lines days front [])"
    by simp_all
  from parse_lines_record [OF 1 2 3 4, of ls]
  have len: "k < length ?res" and rec: "?res ! k = foldl ?step ?sd (entry_lines ls)"
    unfolding res k by simp_all
  show "k < length ?res" by (rule len)
  show "date (?res ! k) = Some (strip (replace (strip h) (str ''Daily Check-in:'') []))"
    unfolding rec by (simp add: foldl_date new_summary_data_def)
  {
    assume "entry_lines ls = pre @ g # post \<and> sets_goals g \<and> (\<forall>l\<in>set post. \<not> sets_goals l)"
    then have e: "entry_lines ls = pre @ g # post" and sg: "sets_goals g"
      and np: "\<forall>l\<in>set post. \<not> sets_goals l"
      by simp_all
    show "short_term_goals (?res ! k) =
        Some (map strip (filter (\<lambda>goal. strip goal \<noteq> []) (split (goals_text g) 44)))"
      unfolding rec e using sg np by (rule foldl_goals_last)
  }
  {
    assume "\<forall>l\<in>set (entry_lines ls). \<not> sets_goals l"
    then have "short_term_goals (foldl ?step ?sd (entry_lines ls)) = short_term_goals ?sd"
      by (rule foldl_goals_kept)
    then show "short_term_goals (?res ! k) = Some []"
      unfolding rec by (simp add: new_summary_data_def)
  }
qed

theorem parsed_records_are_stripped_witness:
  "(\<exists>w. workout (example_records ! 0) = Some w \<and> strip w = w)
   \<and> date (example_records ! 1) = Some (str ''2024-05-01'')
   \<and> short_term_goals (example_records ! 0) = Some [str ''sleep earlier'', str ''stretch'']
   \<and> short_term_goals (example_records ! 1) = Some []"
proof -
  note t0 = parsed_records_are_stripped [where rt = small_floats and cfg = default_config
      and get = "get_text example_text" and days = 7 and s = fresh
      and content = "[Some [Some example_text]]" and front = "[]" and junk = "[]"
      and h = "example_lines ! 0" and ls = "drop 1 example_lines" and k = 0
      and pre = "take 2 (drop 1 example_lines)" and g = "example_lines ! 3" and post = "[]"]
  note t1 = parsed_records_are_stripped [where rt = small_floats and cfg = default_config
      and get = "get_text example_text" and days = 7 and s = fresh
      and content = "[Some [Some example_text]]" and front = "take 5 example_lines"
      and junk = "[]" and h = "example_lines ! 5" and ls = "drop 6 example_lines" and k = 1
      and pre = "[]" and g = "[]" and post = "[]"]
  have m: "example_records ! 0 \<in> set example_records"
    by (simp add: example_records_def)
  from t0 m have c1: "\<exists>w. workout (example_records ! 0) = Some w \<and> strip w = w"
    unfolding ex2 by blast
  have h0: "fst (google_retry_with_backoff small_floats default_config (get_text example_text) fresh)
        = Inr [Some [Some example_text]]
      \<and> split (full_text [Some [Some example_text]]) 10
          = [] @ [] @ example_lines ! 0 # drop 1 example_lines
      \<and> ([] = [] \<or> is_separator (last []))
      \<and> (\<forall>l\<in>set []. \<not> is_heading l) \<and> is_heading (example_lines ! 0)
      \<and> 0 = length (parse_lines 7 [] []) \<and> int 0 < 7"
    by code_simp
  have g0: "entry_lines (drop 1 example_lines) = take 2 (drop 1 example_lines) @ example_lines ! 3 # []
      \<and> sets_goals (example_lines ! 3) \<and> (\<forall>l\<in>set []. \<not> sets_goals l)"
    by code_simp
  have v0: "map strip (filter (\<lambda>goal. strip goal \<noteq> []) (split (goals_text (example_lines ! 3)) 44))
      = [str ''sleep earlier'', str ''stretch'']"
    by code_simp
  from t0 [THEN conjunct2, THEN mp, OF h0]
  have "short_term_goals (example_records ! 0) =
      Some (map strip (filter (\<lambda>goal. strip goal \<noteq> []) (split (goals_text (example_lines ! 3)) 44)))"
    unfolding ex2 using g0 by blast
  then have c3: "short_term_goals (example_records ! 0) = Some [str ''sleep earlier'', str ''stretch'']"
    unfolding v0 .
  have h1: "fst (google_retry_with_backoff small_floats default_config (get_text example_text) fresh)
        = Inr [Some [Some example_text]]
      \<and> split (full_text [Some [Some example_text]]) 10
          = take 5 example_lines @ [] @ example_lines ! 5 # drop 6 example_lines
      \<and> (take 5 example_lines = [] \<or> is_separator (last (take 5 example_lines)))
      \<and> (\<forall>l\<in>set []. \<not> is_heading l) \<and> is_heading (example_lines ! 5)
      \<and> 1 = length (parse_lines 7 (take 5 example_lines) []) \<and> int 1 < 7"
    by code_simp
  have g1: "\<forall>l\<in>set (entry_lines (drop 6 example_lines)). \<not> sets_goals l"
    by code_simp
  have v1: "strip (replace (strip (example_lines ! 5)) (str ''Daily Check-in:'') []) = str ''2024-05-01''"
    by code_simp
  from t1 [THEN conjunct2, THEN mp, OF h1]
  have "date (example_records ! 1) =
        Some (strip (replace (strip (example_lines ! 5)) (str ''Daily Check-in:'') []))"
    and c4: "short_term_goals (example_records ! 1) = Some []"
    unfolding ex2 using g1 by blast+
  then have c2: "date (example_records ! 1) = Some (str ''2024-05-01'')"
    unfolding v1 by simp
  from c1 c2 c3 c4 show ?thesis by blast
qed

text \<open>
  Claim C10 as stated fails: an entry whose second goals bullet reads
  \<open>Not specified\<close> keeps the goals of its first goals bullet.
\<close>

theorem not_specified_bullet_keeps_goals:
  "startswith (strip (two_goals_lines ! 2)) (parsed_bullet @ str '' Short-term Goals:'')
   \<and> goals_text (two_goals_lines ! 2) = str ''Not specified''
   \<and> fst (get_daily_summaries_from_doc small_floats default_config
        (get_text (join nl two_goals_lines)) 7 fresh) =
      [\<lparr>date = Some (str ''2024-05-03''), workout = Some (str ''Not specified''),
        eating_feelings = Some (str ''Not specified''),
        short_term_goals = Some [str ''run'']\<rparr>]"
  by code_simp

lemma all_present_new: "all_present (new_summary_data d)"
  by (simp add: all_present_def new_summary_data_def)

lemma all_present_step: "all_present r \<Longrightarrow> all_present (parse_line_content l r)"
  by (auto simp: all_present_def parse_line_content_def Let_def)

text \<open>
  The records of the parser have their four fields, whatever the document is.
\<close>

lemma parsed_records_all_present:
  fixes s :: "('w, 'f) io"
  shows "\<forall>r\<in>set (fst (get_daily_summaries_from_doc rt cfg get days s)).
     date r \<noteq> None \<and> workout r \<noteq> None \<and> eating_feelings r \<noteq> None
     \<and> short_term_goals r \<noteq> None"
proof -
  have "\<forall>r\<in>set (fst (get_daily_summaries_from_doc rt cfg get days s)). all_present r"
    by (rule get_daily_summaries_invariant) (rule all_present_new, rule all_present_step)
  then show ?thesis
    unfolding all_present_def .
qed

text \<open>
  Claim C5 does not hold of the code.  When the model replies with the empty JSON object,
  the first attempt succeeds, \<open>json.loads\<close> accepts the reply, and
  \<open>get_daily_summary\<close> returns the empty dictionary as it is: none of the keys
  \<open>workout\<close>, \<open>eating_feelings\<close> and \<open>short_term_goals\<close> is there, where
  the docstring of the function promises a summary with the three of them and the
  fallback record of its two other returns has all three.
\<close>

theorem daily_summary_without_fields:
  "get_daily_summary small_floats default_config loads_examples (replies_with (str ''{}''))
      (str ''Previous context'') (str ''Had a workout'') fresh =
     (Inr (JObj []), \<lparr>world = 1, calls = 1, sleeps = []\<rparr>)
   \<and> \<not> has_key (JObj []) (str ''workout'')
   \<and> \<not> has_key (JObj []) (str ''eating_feelings'')
   \<and> \<not> has_key (JObj []) (str ''short_term_goals'')
   \<and> has_key daily_fallback (str ''workout'')
   \<and> has_key daily_fallback (str ''eating_feelings'')
   \<and> has_key daily_fallback (str ''short_term_goals'')"
  by code_simp

text \<open>
  Claim C1 does not hold of the code.  The summary of the scenario, written by
  \<open>process_daily_response\<close> and read back by \<open>get_daily_summaries_from_doc\<close>,
  comes back with the date only: the workout and the goals are lost, because the lines
  are written with the bullet U+2022 and the parser tests for another prefix.
\<close>

theorem roundtrip_loses_the_summary:
  "fst (get_daily_summaries_from_doc small_floats default_config (get_text scenario_text) 7 fresh) =
     [\<lparr>date = Some (str ''2024-05-01''), workout = Some (str ''Not specified''),
       eating_feelings = Some (str ''Not specified''), short_term_goals = Some []\<rparr>]
   \<and> fst (get_daily_summaries_from_doc small_floats default_config (get_text scenario_text) 7 fresh)
       \<noteq> [scenario_summary]"
  by code_simp

section \<open>Properties of the stretch check\<close>

lemma contains_sublist: "contains s sub = sublist sub s"
  by (induction s) (simp_all add: sublist_Cons_right)

lemma contains_iff: "contains s sub = (\<exists>pre post. s = pre @ sub @ post)"
  by (simp add: contains_sublist sublist_def)

text \<open>
  Claim C9.  \<open>process_stretch_response\<close> passes \<open>stretched = True\<close> to
  \<open>save_stretch_entry\<close> if and only if the lower-cased reply has \<open>yes\<close>,
  \<open>yeah\<close> or \<open>yep\<close> as a substring; the reply "no, but I stretched yesterday"
  is therefore recorded as stretched.
\<close>

theorem stretch_reply_substring:
  "stretched_of user_text =
     ((\<exists>pre post. lower user_text = pre @ str ''yes'' @ post)
      \<or> (\<exists>pre post. lower user_text = pre @ str ''yeah'' @ post)
      \<or> (\<exists>pre post. lower user_text = pre @ str ''yep'' @ post))
   \<and> snd (snd (process_stretch_response save now_iso user_text (b, w))) =
       snd (save (get_or (pending_stretch_data b) now_iso) user_text (stretched_of user_text) w)
   \<and> stretched_of (str ''no, but I stretched yesterday'')
   \<and> process_stretch_response save_to_list (str ''2024-05-02'')
        (str ''no, but I stretched yesterday'')
        (\<lparr>awaiting_stretch_response = True, pending_stretch_data = Some (str ''2024-05-02'')\<rparr>, [])
      = (GreatJob,
         \<lparr>awaiting_stretch_response = False, pending_stretch_data = None\<rparr>,
         [(str ''2024-05-02'', str ''no, but I stretched yesterday'', True)])"
proof (intro conjI)
  show "stretched_of user_text =
     ((\<exists>pre post. lower user_text = pre @ str ''yes'' @ post)
      \<or> (\<exists>pre post. lower user_text = pre @ str ''yeah'' @ post)
      \<or> (\<exists>pre post. lower user_text = pre @ str ''yep'' @ post))"
    by (simp only: stretched_of_def Let_def contains_iff)
  show "snd (snd (process_stretch_response save now_iso user_text (b, w))) =
       snd (save (get_or (pending_stretch_data b) now_iso) user_text (stretched_of user_text) w)"
    by (simp add: process_stretch_response_def Let_def split: prod.splits sum.splits)
  show "stretched_of (str ''no, but I stretched yesterday'')"
    by code_simp
  show "process_stretch_response save_to_list (str ''2024-05-02'')
        (str ''no, but I stretched yesterday'')
        (\<lparr>awaiting_stretch_response = True, pending_stretch_data = Some (str ''2024-05-02'')\<rparr>, [])
      = (GreatJob,
         \<lparr>awaiting_stretch_response = False, pending_stretch_data = None\<rparr>,
         [(str ''2024-05-02'', str ''no, but I stretched yesterday'', True)])"
    by code_simp
qed

lemma find_first:
  "(\<forall>x\<in>set before. \<not> P x) \<Longrightarrow> P e \<Longrightarrow> find P (before @ e # rest) = Some e"
  by (induction before) simp_all

lemma find_absent: "(\<forall>x\<in>set xs. \<not> P x) \<Longrightarrow> find P xs = None"
  by (induction xs) simp_all

text \<open>
  Claim C6, on the model of \<open>get_stretch_entry\<close> that follows the specification.
  When no entry of the log has the date, the result is the absent value: not an error and
  not a record; so it is when the fetch fails.  When an entry has the date, the result is
  the first such entry from the head.  The caller in bot.py tells the two apart: without
  an entry for yesterday the reminder says that there is no record, with an entry that is
  not stretched it says that the user did not stretch.
\<close>

theorem stretch_entry_absent_or_first:
  "((\<forall>e\<in>set entries. entry_date e \<noteq> date_key)
      \<longrightarrow> get_stretch_entry (Inr entries) date_key = Inr None)
   \<and> get_stretch_entry (Inl err) date_key = Inr None
   \<and> ((\<forall>x\<in>set before. entry_date x \<noteq> date_key) \<and> entry_date e = date_key
      \<longrightarrow> get_stretch_entry (Inr (before @ e # rest)) date_key = Inr (Some e))
   \<and> send_stretch_check None None = RemindNoRecord
   \<and> (\<not> stretched e \<longrightarrow> send_stretch_check (Some e) None = RemindDidNotStretch)"
  by (simp add: get_stretch_entry_def find_first find_absent send_stretch_check_def)

theorem stretch_entry_absent_or_first_witness:
  "get_stretch_entry (Inr stretch_log) (str ''2024-04-30'') = Inr None
   \<and> get_stretch_entry (Inr stretch_log) (str ''2024-05-01'') = Inr (Some (stretch_log ! 1))
   \<and> send_stretch_check (Some (stretch_log ! 0)) None = RemindDidNotStretch"
proof -
  note t = stretch_entry_absent_or_first [of stretch_log "str ''2024-04-30''"]
  have h1: "\<forall>e\<in>set stretch_log. entry_date e \<noteq> str ''2024-04-30''"
    by (simp add: stretch_log_def str_def)
  from t h1 have c1: "get_stretch_entry (Inr stretch_log) (str ''2024-04-30'') = Inr None"
    by blast
  note u = stretch_entry_absent_or_first [of "[]" "str ''2024-05-01''" ValueError
      "[stretch_log ! 0]" "stretch_log ! 1" "[stretch_log ! 2]"]
  have h2: "\<forall>x\<in>set [stretch_log ! 0]. entry_date x \<noteq> str ''2024-05-01''"
    "entry_date (stretch_log ! 1) = str ''2024-05-01''"
    by (simp_all add: stretch_log_def str_def)
  have l: "[stretch_log ! 0] @ stretch_log ! 1 # [stretch_log ! 2] = stretch_log"
    by (simp add: stretch_log_def)
  from u h2 have c2: "get_stretch_entry (Inr stretch_log) (str ''2024-05-01'')
      = Inr (Some (stretch_log ! 1))"
    unfolding l by blast
  note v = stretch_entry_absent_or_first [of "[]" "str ''2024-05-01''" ValueError
      "[]" "stretch_log ! 0" "[]"]
  have h3: "\<not> stretched (stretch_log ! 0)"
    by (simp add: stretch_log_def)
  from v h3 have c3: "send_stretch_check (Some (stretch_log ! 0)) None = RemindDidNotStretch"
    by blast
  from c1 c2 c3 show ?thesis by blast
qed

end
